theory Spec2Isabelle
  imports Complex_Main
begin

section \<open>Debris simulation: particle dynamics and particle population\<close>

text \<open>
  A shallow embedding of \<^verbatim>\<open>debris_simulation.py\<close>: the classes
  \<^verbatim>\<open>DebrisParticle\<close> and \<^verbatim>\<open>ExplosionSystem\<close> with the constants and
  the material table they use.

  Numbers. Python floats and the two-component numpy arrays are modelled by \<open>real\<close> and
  pairs of reals: arithmetic is exact, and there is no rounding, infinity or NaN. Python
  ints (the collision counter, the millisecond clock, the particle count) are \<open>int\<close>.
  The code divides by \<^verbatim>\<open>self.mass\<close> in two places; the mass is zero only for a
  particle built with size zero, where numpy yields inf or nan and HOL's division
  yields 0. The two agree for every particle whose mass is not zero.

  Effects. The global generator of the \<^verbatim>\<open>random\<close> module is an explicit state: an
  endless sequence of unit draws and a cursor. The clock \<^verbatim>\<open>pygame.time.get_ticks()\<close>
  is an explicit argument of the two functions that read it. A method that mutates
  \<^verbatim>\<open>self\<close> takes the object and returns the updated one.
\<close>

subsection \<open>Constants and materials\<close>

type_synonym vec = "real \<times> real"

definition SCREEN_WIDTH :: real where "SCREEN_WIDTH = 1200"
definition SCREEN_HEIGHT :: real where "SCREEN_HEIGHT = 800"
definition GRAVITY :: vec where "GRAVITY = (0, 500)"
definition AIR_RESISTANCE :: real where "AIR_RESISTANCE = 0.99"
definition GROUND_Y :: real where "GROUND_Y = SCREEN_HEIGHT - 50"
definition RESTITUTION :: real where "RESTITUTION = 0.7"
definition FRICTION :: real where "FRICTION = 0.8"

datatype MaterialType = RIGID | SEMI_RIGID | SOFT

record Material =
  density :: real
  elasticity :: real
  damping :: real
  color :: "int \<times> int \<times> int"
  deformation_threshold :: real

fun MATERIALS :: "MaterialType \<Rightarrow> Material" where
  "MATERIALS RIGID = \<lparr>density = 2.5, elasticity = 0.2, damping = 0.95,
     color = (150, 150, 150), deformation_threshold = 1000\<rparr>"
| "MATERIALS SEMI_RIGID = \<lparr>density = 1.8, elasticity = 0.6, damping = 0.85,
     color = (200, 150, 100), deformation_threshold = 300\<rparr>"
| "MATERIALS SOFT = \<lparr>density = 1.0, elasticity = 0.9, damping = 0.7,
     color = (100, 200, 150), deformation_threshold = 50\<rparr>"

subsection \<open>Vectors\<close>

definition vadd :: "vec \<Rightarrow> vec \<Rightarrow> vec" where
  "vadd a b = (fst a + fst b, snd a + snd b)"

definition vscale :: "vec \<Rightarrow> real \<Rightarrow> vec" where
  "vscale a k = (fst a * k, snd a * k)"

definition vdiv :: "vec \<Rightarrow> real \<Rightarrow> vec" where
  "vdiv a k = (fst a / k, snd a / k)"

text \<open>\<^verbatim>\<open>Vector2D.magnitude\<close>: the Euclidean norm of \<^verbatim>\<open>np.linalg.norm\<close>.\<close>

definition magnitude :: "vec \<Rightarrow> real" where
  "magnitude v = sqrt ((fst v)\<^sup>2 + (snd v)\<^sup>2)"

subsection \<open>The random source\<close>

text \<open>
  \<^verbatim>\<open>random.uniform(a, b)\<close> is \<^verbatim>\<open>a + (b - a) * random()\<close>, where
  \<^verbatim>\<open>random()\<close> is the next unit draw of the generator, a float in \<open>[0, 1)\<close>.
\<close>

record rng =
  draws :: "nat \<Rightarrow> real"
  cursor :: nat

definition random_uniform :: "real \<Rightarrow> real \<Rightarrow> rng \<Rightarrow> real \<times> rng" where
  "random_uniform a b g =
     (a + (b - a) * draws g (cursor g), g\<lparr>cursor := Suc (cursor g)\<rparr>)"

definition unit_draws :: "rng \<Rightarrow> bool" where
  "unit_draws g \<longleftrightarrow> (\<forall>i. 0 \<le> draws g i \<and> draws g i < 1)"

subsection \<open>DebrisParticle\<close>

record particle =
  position :: vec
  velocity :: vec
  size_p :: real
  mass :: real
  material_type :: MaterialType
  material :: Material
  angular_velocity :: real
  angle :: real
  forces :: vec
  deformation :: real
  stress :: real
  original_size :: real
  trail :: "vec list"
  max_trail_length :: nat
  collision_count :: int
  last_collision_time :: int

text \<open>\<^verbatim>\<open>DebrisParticle.__init__\<close>; the field \<^verbatim>\<open>size\<close> is \<open>size_p\<close> here.\<close>

definition DebrisParticle_init ::
  "vec \<Rightarrow> vec \<Rightarrow> real \<Rightarrow> MaterialType \<Rightarrow> rng \<Rightarrow> particle \<times> rng" where
  "DebrisParticle_init pos vel sz mt g =
     (let (av, g1) = random_uniform (- 5) 5 g;
          (ang, g2) = random_uniform 0 (2 * pi) g1
      in (\<lparr>position = pos, velocity = vel, size_p = sz,
            mass = sz\<^sup>2 * density (MATERIALS mt) / 1000,
            material_type = mt, material = MATERIALS mt,
            angular_velocity = av, angle = ang, forces = (0, 0),
            deformation = 0, stress = 0, original_size = sz,
            trail = [], max_trail_length = 10,
            collision_count = 0, last_collision_time = 0\<rparr>, g2))"

definition apply_force :: "vec \<Rightarrow> particle \<Rightarrow> particle" where
  "apply_force force p = p\<lparr>forces := vadd (forces p) force\<rparr>"

definition update_deformation :: "real \<Rightarrow> particle \<Rightarrow> particle" where
  "update_deformation collision_force p =
     (if material_type p = SEMI_RIGID then
        (let stress_increment = collision_force / (mass p * 100);
             p1 = p\<lparr>stress := stress p + stress_increment\<rparr>;
             p2 = (if stress p1 > deformation_threshold (material p1) then
                     (let deformation_amount =
                            (stress p1 - deformation_threshold (material p1)) / 1000;
                          p1a = p1\<lparr>deformation :=
                                   min (deformation p1 + deformation_amount) 0.3\<rparr>
                      in p1a\<lparr>size_p := original_size p1a * (1 - deformation p1a)\<rparr>)
                   else p1)
         in p2\<lparr>stress := stress p2 * 0.95\<rparr>)
      else p)"

text \<open>
  \<^verbatim>\<open>handle_boundary_collisions\<close>, in its three blocks: the ground block, the
  wall block, and the counter. \<open>ground_response\<close> is the body of the ground
  \<^verbatim>\<open>if\<close>; the wall tests read the particle as the ground block left it.
\<close>

definition ground_contact :: "particle \<Rightarrow> bool" where
  "ground_contact p \<longleftrightarrow> snd (position p) + size_p p > GROUND_Y"

definition ground_response :: "particle \<Rightarrow> particle" where
  "ground_response p =
     (let p1 = p\<lparr>position := (fst (position p), GROUND_Y - size_p p)\<rparr>;
          collision_force = \<bar>snd (velocity p1)\<bar> * mass p1;
          p2 = (if material_type p1 = RIGID then
                  p1\<lparr>velocity := (fst (velocity p1) * FRICTION,
                                  - snd (velocity p1) * elasticity (material p1))\<rparr>
                else
                  p1\<lparr>velocity := (fst (velocity p1) * (FRICTION * 0.8),
                                  - snd (velocity p1) * elasticity (material p1)
                                    * damping (material p1))\<rparr>)
      in update_deformation collision_force p2)"

definition left_wall_contact :: "particle \<Rightarrow> bool" where
  "left_wall_contact p \<longleftrightarrow> fst (position p) - size_p p < 0"

definition right_wall_contact :: "particle \<Rightarrow> bool" where
  "right_wall_contact p \<longleftrightarrow> fst (position p) + size_p p > SCREEN_WIDTH"

definition handle_boundary_collisions :: "int \<Rightarrow> particle \<Rightarrow> particle" where
  "handle_boundary_collisions current_time p =
     (let (p1, c1) = (if ground_contact p then (ground_response p, True)
                      else (p, False));
          (p2, c2) =
            (if left_wall_contact p1 then
               (p1\<lparr>position := (size_p p1, snd (position p1)),
                    velocity := (- fst (velocity p1) * elasticity (material p1),
                                 snd (velocity p1))\<rparr>, True)
             else if right_wall_contact p1 then
               (p1\<lparr>position := (SCREEN_WIDTH - size_p p1, snd (position p1)),
                    velocity := (- fst (velocity p1) * elasticity (material p1),
                                 snd (velocity p1))\<rparr>, True)
             else (p1, c1))
      in if c2 then p2\<lparr>collision_count := collision_count p2 + 1,
                       last_collision_time := current_time\<rparr>
         else p2)"

text \<open>
  \<^verbatim>\<open>DebrisParticle.update\<close>: \<open>advance\<close> is the method up to the reset of the
  forces, and the boundary collisions follow. Each assignment to a field of
  \<^verbatim>\<open>self\<close> is a local value here, in the order of the source, and the fields are
  written back together.
\<close>

definition advance :: "real \<Rightarrow> particle \<Rightarrow> particle" where
  "advance dt p =
     (let gravity_force = vscale GRAVITY (mass p);
          forces1 = forces (apply_force gravity_force p);
          acceleration = vdiv forces1 (mass p);
          velocity1 = vadd (velocity p) (vscale acceleration dt);
          velocity2 = vscale velocity1 AIR_RESISTANCE;
          position1 = vadd (position p) (vscale velocity2 dt);
          angular_velocity1 = angular_velocity p * 0.99;
          angle1 = angle p + angular_velocity1 * dt;
          trail1 = trail p @ [position1];
          trail2 = (if length trail1 > max_trail_length p then tl trail1 else trail1)
      in p\<lparr>velocity := velocity2, position := position1,
           angular_velocity := angular_velocity1, angle := angle1,
           trail := trail2, forces := (0, 0)\<rparr>)"

definition DebrisParticle_update :: "real \<Rightarrow> int \<Rightarrow> particle \<Rightarrow> particle" where
  "DebrisParticle_update dt current_time p =
     handle_boundary_collisions current_time (advance dt p)"

subsection \<open>ExplosionSystem\<close>

record explosion =
  e_position :: vec
  e_time :: int
  e_duration :: int

record system =
  particles :: "particle list"
  explosions :: "explosion list"

definition ExplosionSystem_init :: system where
  "ExplosionSystem_init = \<lparr>particles = [], explosions = []\<rparr>"

text \<open>
  The loop of \<^verbatim>\<open>create_explosion\<close>: \<^verbatim>\<open>range(particle_count)\<close> runs
  \<open>nat particle_count\<close> times, so not at all for a negative count.
\<close>

fun spawn_particles ::
  "nat \<Rightarrow> vec \<Rightarrow> real \<Rightarrow> MaterialType \<Rightarrow> particle list \<Rightarrow> rng \<Rightarrow> particle list \<times> rng"
  where
  "spawn_particles 0 pos force mt ps g = (ps, g)"
| "spawn_particles (Suc n) pos force mt ps g =
     (let (ang, g1) = random_uniform 0 (2 * pi) g;
          (speed, g2) = random_uniform (force * 0.3) force g1;
          (bias, g3) = random_uniform 0 200 g2;
          vel = (cos ang * speed, sin ang * speed - bias);
          (offset_distance, g4) = random_uniform 0 30 g3;
          offset = (cos ang * offset_distance, sin ang * offset_distance);
          particle_pos = vadd pos offset;
          (sz, g5) = random_uniform 3 15 g4;
          (p, g6) = DebrisParticle_init particle_pos vel sz mt g5
      in spawn_particles n pos force mt (ps @ [p]) g6)"

definition create_explosion ::
  "vec \<Rightarrow> real \<Rightarrow> int \<Rightarrow> MaterialType \<Rightarrow> int \<Rightarrow> system \<Rightarrow> rng \<Rightarrow> system \<times> rng" where
  "create_explosion pos force particle_count mt ticks s g =
     (let (ps, g') = spawn_particles (nat particle_count) pos force mt (particles s) g
      in (s\<lparr>particles := ps,
            explosions := explosions s @
              [\<lparr>e_position = pos, e_time = ticks, e_duration = 500\<rparr>]\<rparr>, g'))"

definition is_particle_active :: "particle \<Rightarrow> bool" where
  "is_particle_active p =
     (if (fst (position p) < - 100 \<or> fst (position p) > SCREEN_WIDTH + 100
          \<or> snd (position p) > SCREEN_HEIGHT + 100)
         \<and> magnitude (velocity p) < 50 then False
      else if magnitude (velocity p) < 10 \<and> collision_count p > 5 then False
      else True)"

definition ExplosionSystem_update :: "real \<Rightarrow> int \<Rightarrow> system \<Rightarrow> system" where
  "ExplosionSystem_update dt current_time s =
     s\<lparr>particles := map (DebrisParticle_update dt current_time)
                       (filter is_particle_active (particles s)),
       explosions := filter (\<lambda>e. current_time - e_time e < e_duration e)
                       (explosions s)\<rparr>"

subsection \<open>Invariants, reachable particles and sample inputs\<close>

text \<open>The deformation state the code keeps for a particle.\<close>

definition deform_inv :: "particle \<Rightarrow> bool" where
  "deform_inv p \<longleftrightarrow>
     size_p p = original_size p * (1 - deformation p)
     \<and> 0 \<le> deformation p \<and> deformation p \<le> 0.3"

definition undeformed :: "particle \<Rightarrow> bool" where
  "undeformed p \<longleftrightarrow> deformation p = 0 \<and> stress p = 0 \<and> size_p p = original_size p"

text \<open>
  The particles the program can hold: built by the constructor, then changed by the
  methods of \<^verbatim>\<open>DebrisParticle\<close> only, in any order and with any arguments.
\<close>

inductive reachable :: "particle \<Rightarrow> bool" where
  r_init: "reachable (fst (DebrisParticle_init pos vel sz mt g))"
| r_force: "reachable p \<Longrightarrow> reachable (apply_force f p)"
| r_deform: "reachable p \<Longrightarrow> reachable (update_deformation cf p)"
| r_bounds: "reachable p \<Longrightarrow> reachable (handle_boundary_collisions t p)"
| r_update: "reachable p \<Longrightarrow> reachable (DebrisParticle_update dt t p)"

text \<open>
  The blocks of \<^verbatim>\<open>handle_boundary_collisions\<close> by name: the particle after the
  ground block, the wall block, and whether any of the three tests fired (the flag
  \<^verbatim>\<open>collision_occurred\<close>).
\<close>

definition after_ground :: "particle \<Rightarrow> particle" where
  "after_ground p = (if ground_contact p then ground_response p else p)"

definition wall_response :: "particle \<Rightarrow> particle" where
  "wall_response p =
     (if left_wall_contact p then
        p\<lparr>position := (size_p p, snd (position p)),
          velocity := (- fst (velocity p) * elasticity (material p), snd (velocity p))\<rparr>
      else if right_wall_contact p then
        p\<lparr>position := (SCREEN_WIDTH - size_p p, snd (position p)),
          velocity := (- fst (velocity p) * elasticity (material p), snd (velocity p))\<rparr>
      else p)"

definition boundary_triggered :: "particle \<Rightarrow> bool" where
  "boundary_triggered p \<longleftrightarrow>
     ground_contact p \<or> left_wall_contact (after_ground p)
     \<or> right_wall_contact (after_ground p)"

text \<open>A generator whose every unit draw is one half, for the concrete runs below.\<close>

definition half_rng :: rng where
  "half_rng = \<lparr>draws = (\<lambda>_. 1 / 2), cursor = 0\<rparr>"

text \<open>
  A semi-rigid particle of size 5 falling at 100 just above the ground, and the same
  particle after one update of a tenth of a second, in which it hits the ground.
\<close>

definition fresh_semi_rigid :: particle where
  "fresh_semi_rigid = fst (DebrisParticle_init (600, 740) (0, 100) 5 SEMI_RIGID half_rng)"

definition bounced_semi_rigid :: particle where
  "bounced_semi_rigid = DebrisParticle_update 0.1 0 fresh_semi_rigid"

text \<open>What an explosion promises of each particle it adds.\<close>

definition spawned_ok :: "MaterialType \<Rightarrow> particle \<Rightarrow> bool" where
  "spawned_ok mt p \<longleftrightarrow> material_type p = mt \<and> 3 \<le> size_p p \<and> size_p p \<le> 15"

text \<open>
  The trajectory state of a particle: every field but \<open>last_collision_time\<close>, the
  one field that records a reading of the clock.
\<close>

definition traj :: "particle \<Rightarrow> particle" where
  "traj p = p\<lparr>last_collision_time := 0\<rparr>"

text \<open>
  A run of the system: one \<^verbatim>\<open>ExplosionSystem.update\<close> per entry, each with its
  \<open>dt\<close> and with the value the clock returns in that call.
\<close>

fun run :: "(real \<times> int) list \<Rightarrow> system \<Rightarrow> system" where
  "run [] s = s"
| "run ((dt, ticks) # steps) s = run steps (ExplosionSystem_update dt ticks s)"

section \<open>Properties\<close>

subsection \<open>What each method leaves unchanged\<close>

lemma init_fields:
  "material_type (fst (DebrisParticle_init pos vel sz mt g)) = mt"
  "material (fst (DebrisParticle_init pos vel sz mt g)) = MATERIALS mt"
  "size_p (fst (DebrisParticle_init pos vel sz mt g)) = sz"
  "original_size (fst (DebrisParticle_init pos vel sz mt g)) = sz"
  "deformation (fst (DebrisParticle_init pos vel sz mt g)) = 0"
  "stress (fst (DebrisParticle_init pos vel sz mt g)) = 0"
  "mass (fst (DebrisParticle_init pos vel sz mt g)) = sz\<^sup>2 * density (MATERIALS mt) / 1000"
  "collision_count (fst (DebrisParticle_init pos vel sz mt g)) = 0"
  "position (fst (DebrisParticle_init pos vel sz mt g)) = pos"
  "velocity (fst (DebrisParticle_init pos vel sz mt g)) = vel"
  by (simp_all add: DebrisParticle_init_def random_uniform_def Let_def)

lemma update_deformation_frame:
  "material_type (update_deformation cf p) = material_type p"
  "material (update_deformation cf p) = material p"
  "original_size (update_deformation cf p) = original_size p"
  "mass (update_deformation cf p) = mass p"
  "position (update_deformation cf p) = position p"
  "velocity (update_deformation cf p) = velocity p"
  "collision_count (update_deformation cf p) = collision_count p"
  by (simp_all add: update_deformation_def Let_def)

lemma update_deformation_other:
  "material_type p \<noteq> SEMI_RIGID \<Longrightarrow> update_deformation cf p = p"
  by (simp add: update_deformation_def)

lemma apply_force_frame:
  "material_type (apply_force f p) = material_type p"
  "material (apply_force f p) = material p"
  "original_size (apply_force f p) = original_size p"
  "size_p (apply_force f p) = size_p p"
  "deformation (apply_force f p) = deformation p"
  "stress (apply_force f p) = stress p"
  "mass (apply_force f p) = mass p"
  by (simp_all add: apply_force_def)

lemma advance_frame:
  "material_type (advance dt p) = material_type p"
  "material (advance dt p) = material p"
  "original_size (advance dt p) = original_size p"
  "size_p (advance dt p) = size_p p"
  "deformation (advance dt p) = deformation p"
  "stress (advance dt p) = stress p"
  "mass (advance dt p) = mass p"
  "collision_count (advance dt p) = collision_count p"
  by (simp_all add: advance_def apply_force_def Let_def)

lemma ground_response_frame:
  "material_type (ground_response p) = material_type p"
  "material (ground_response p) = material p"
  "original_size (ground_response p) = original_size p"
  "mass (ground_response p) = mass p"
  "collision_count (ground_response p) = collision_count p"
  by (simp_all add: ground_response_def Let_def update_deformation_frame)

lemma ground_response_other:
  "material_type p \<noteq> SEMI_RIGID \<Longrightarrow>
     size_p (ground_response p) = size_p p
     \<and> deformation (ground_response p) = deformation p
     \<and> stress (ground_response p) = stress p"
  by (simp add: ground_response_def Let_def update_deformation_def)

text \<open>The wall block and the counter leave the deformation state alone.\<close>

lemma handle_boundary_collisions_deform:
  "material_type (handle_boundary_collisions t p) = material_type p"
  "material (handle_boundary_collisions t p) = material p"
  "original_size (handle_boundary_collisions t p) = original_size p"
  "mass (handle_boundary_collisions t p) = mass p"
  "size_p (handle_boundary_collisions t p) =
     size_p (if ground_contact p then ground_response p else p)"
  "deformation (handle_boundary_collisions t p) =
     deformation (if ground_contact p then ground_response p else p)"
  "stress (handle_boundary_collisions t p) =
     stress (if ground_contact p then ground_response p else p)"
  by (simp_all add: handle_boundary_collisions_def Let_def ground_response_frame)

subsection \<open>Deformation\<close>

lemma update_deformation_inv:
  "deform_inv p \<Longrightarrow> deform_inv (update_deformation cf p)"
  by (auto simp add: update_deformation_def deform_inv_def Let_def min_def)

lemma update_deformation_mono:
  "deformation p \<le> 0.3 \<Longrightarrow> deformation p \<le> deformation (update_deformation cf p)"
  by (auto simp add: update_deformation_def Let_def min_def)

lemma ground_response_inv:
  "deform_inv p \<Longrightarrow> deform_inv (ground_response p)"
  unfolding ground_response_def Let_def
  by (rule update_deformation_inv) (simp add: deform_inv_def)

lemma handle_boundary_collisions_inv:
  "deform_inv p \<Longrightarrow> deform_inv (handle_boundary_collisions t p)"
  using ground_response_inv [of p]
  by (simp add: deform_inv_def handle_boundary_collisions_deform ground_response_frame)

lemma advance_inv: "deform_inv p \<Longrightarrow> deform_inv (advance dt p)"
  by (simp add: deform_inv_def advance_frame)

lemma reachable_deform_inv: "reachable p \<Longrightarrow> deform_inv p"
proof (induction rule: reachable.induct)
  case (r_init pos vel sz mt g)
  show ?case by (simp add: deform_inv_def init_fields)
next
  case (r_force p f)
  then show ?case by (simp add: deform_inv_def apply_force_frame)
next
  case (r_deform p cf)
  from r_deform.IH show ?case by (rule update_deformation_inv)
next
  case (r_bounds p t)
  from r_bounds.IH show ?case by (rule handle_boundary_collisions_inv)
next
  case (r_update p dt t)
  from r_update.IH show ?case
    unfolding DebrisParticle_update_def
    by (intro handle_boundary_collisions_inv advance_inv)
qed

lemma reachable_undeformed:
  "reachable p \<Longrightarrow> material_type p \<noteq> SEMI_RIGID \<Longrightarrow> undeformed p"
proof (induction rule: reachable.induct)
  case (r_init pos vel sz mt g)
  show ?case by (simp add: undeformed_def init_fields)
next
  case (r_force p f)
  then show ?case by (simp add: undeformed_def apply_force_frame)
next
  case (r_deform p cf)
  then show ?case by (simp add: update_deformation_frame update_deformation_other)
next
  case (r_bounds p t)
  then show ?case
    using ground_response_other [of p]
    by (simp add: undeformed_def handle_boundary_collisions_deform)
next
  case (r_update p dt t)
  then have "undeformed (advance dt p)"
    by (simp add: undeformed_def advance_frame handle_boundary_collisions_deform
      DebrisParticle_update_def)
  with r_update.prems show ?case
    using ground_response_other [of "advance dt p"]
    by (simp add: undeformed_def handle_boundary_collisions_deform advance_frame
      DebrisParticle_update_def)
qed

text \<open>
  Claim C1. For a semi-rigid particle the program can hold, every call of
  \<^verbatim>\<open>update_deformation\<close>, with any collision force, ends in a state where
  \<open>size = original_size * (1 - deformation)\<close>; the call does not lower the
  deformation, and the deformation lies between 0 and 0.3.
\<close>

theorem semi_rigid_deformation_invariant:
  assumes "reachable p" and "material_type p = SEMI_RIGID"
  shows "size_p (update_deformation cf p)
           = original_size (update_deformation cf p)
             * (1 - deformation (update_deformation cf p))
         \<and> deformation p \<le> deformation (update_deformation cf p)
         \<and> 0 \<le> deformation (update_deformation cf p)
         \<and> deformation (update_deformation cf p) \<le> 0.3"
proof -
  from assms(1) have inv: "deform_inv p" by (rule reachable_deform_inv)
  then have "deform_inv (update_deformation cf p)" by (rule update_deformation_inv)
  moreover from inv have "deformation p \<le> deformation (update_deformation cf p)"
    by (simp add: deform_inv_def update_deformation_mono)
  ultimately show ?thesis by (simp add: deform_inv_def)
qed

text \<open>
  A fresh semi-rigid particle of size 5 has mass 0.045; a collision force of 1800 raises
  its stress to 400, past the threshold 300, so it deforms by 0.1 and shrinks to 4.5.
\<close>

theorem semi_rigid_deformation_invariant_witness:
  "reachable (fst (DebrisParticle_init (600, 740) (0, 100) 5 SEMI_RIGID half_rng))
   \<and> material_type (fst (DebrisParticle_init (600, 740) (0, 100) 5 SEMI_RIGID half_rng))
       = SEMI_RIGID
   \<and> deformation (update_deformation 1800
        (fst (DebrisParticle_init (600, 740) (0, 100) 5 SEMI_RIGID half_rng))) = 0.1
   \<and> size_p (update_deformation 1800
        (fst (DebrisParticle_init (600, 740) (0, 100) 5 SEMI_RIGID half_rng))) = 5 * (1 - 0.1)"
proof -
  let ?p = "fst (DebrisParticle_init (600, 740) (0, 100) 5 SEMI_RIGID half_rng)"
  have r: "reachable ?p" by (rule r_init)
  have m: "material_type ?p = SEMI_RIGID" by (simp add: init_fields)
  have d: "deformation (update_deformation 1800 ?p) = 0.1"
    by (simp add: update_deformation_def Let_def init_fields)
  from semi_rigid_deformation_invariant [OF r m, of 1800] r m d show ?thesis
    by (simp add: update_deformation_frame init_fields)
qed

text \<open>
  Claim C2. For a rigid or soft particle the program can hold,
  \<^verbatim>\<open>update_deformation\<close> changes nothing, whatever the collision force, and the
  particle still has deformation 0, stress 0 and its original size, after any number of
  collisions.
\<close>

theorem rigid_soft_never_deform:
  assumes "reachable p" and "material_type p = RIGID \<or> material_type p = SOFT"
  shows "update_deformation cf p = p
         \<and> deformation p = 0 \<and> stress p = 0 \<and> size_p p = original_size p"
proof -
  from assms(2) have ns: "material_type p \<noteq> SEMI_RIGID" by auto
  with assms(1) have "undeformed p" by (rule reachable_undeformed)
  with ns show ?thesis by (simp add: undeformed_def update_deformation_other)
qed

theorem rigid_soft_never_deform_witness:
  "reachable (DebrisParticle_update 0.1 7
      (fst (DebrisParticle_init (600, 748) (100, 200) 5 RIGID half_rng)))
   \<and> update_deformation 1000000 (DebrisParticle_update 0.1 7
      (fst (DebrisParticle_init (600, 748) (100, 200) 5 RIGID half_rng)))
     = DebrisParticle_update 0.1 7
      (fst (DebrisParticle_init (600, 748) (100, 200) 5 RIGID half_rng))
   \<and> deformation (DebrisParticle_update 0.1 7
      (fst (DebrisParticle_init (600, 748) (100, 200) 5 RIGID half_rng))) = 0"
proof -
  let ?p = "DebrisParticle_update 0.1 7
      (fst (DebrisParticle_init (600, 748) (100, 200) 5 RIGID half_rng))"
  have r: "reachable ?p" by (intro r_update r_init)
  have m: "material_type ?p = RIGID \<or> material_type ?p = SOFT"
    by (simp add: DebrisParticle_update_def handle_boundary_collisions_deform
        advance_frame init_fields)
  from rigid_soft_never_deform [OF r m, of 1000000] r show ?thesis by simp
qed

subsection \<open>Boundary collisions\<close>

lemma handle_boundary_collisions_blocks:
  "handle_boundary_collisions t p =
     (if boundary_triggered p
      then (wall_response (after_ground p))
             \<lparr>collision_count := collision_count (wall_response (after_ground p)) + 1,
              last_collision_time := t\<rparr>
      else wall_response (after_ground p))"
  by (cases "ground_contact p"; cases "left_wall_contact (after_ground p)";
      cases "right_wall_contact (after_ground p)")
     (simp_all add: handle_boundary_collisions_def boundary_triggered_def after_ground_def
        wall_response_def Let_def)

lemma ground_response_motion:
  "position (ground_response p) = (fst (position p), GROUND_Y - size_p p)"
  "velocity (ground_response p) =
     (if material_type p = RIGID
      then (fst (velocity p) * FRICTION, - snd (velocity p) * elasticity (material p))
      else (fst (velocity p) * (FRICTION * 0.8),
            - snd (velocity p) * elasticity (material p) * damping (material p)))"
  by (simp_all add: ground_response_def Let_def update_deformation_frame)

lemma wall_response_vertical:
  "snd (position (wall_response p)) = snd (position p)"
  "snd (velocity (wall_response p)) = snd (velocity p)"
  "collision_count (wall_response p) = collision_count p"
  by (simp_all add: wall_response_def)

lemma wall_response_none:
  "\<not> left_wall_contact p \<Longrightarrow> \<not> right_wall_contact p \<Longrightarrow> wall_response p = p"
  by (simp add: wall_response_def)

lemma handle_boundary_collisions_motion:
  "position (handle_boundary_collisions t p) = position (wall_response (after_ground p))"
  "velocity (handle_boundary_collisions t p) = velocity (wall_response (after_ground p))"
  by (simp_all add: handle_boundary_collisions_blocks)

text \<open>
  Claim C3. On ground contact the ground block sets \<open>position.y\<close> to
  \<open>GROUND_Y - size\<close> and the velocity to \<open>(v.x * FRICTION, - v.y * elasticity)\<close> for a
  rigid particle and to \<open>(v.x * FRICTION * 0.8, - v.y * elasticity * damping)\<close> for a
  semi-rigid or soft one. The whole of \<^verbatim>\<open>handle_boundary_collisions\<close> returns that
  vertical position and vertical velocity, and that position and velocity altogether
  when no wall test fires in the same call. The size is the one at the time of contact.
\<close>

theorem ground_collision_response:
  assumes "ground_contact p"
  shows "position (ground_response p) = (fst (position p), GROUND_Y - size_p p)
       \<and> velocity (ground_response p) =
           (if material_type p = RIGID
            then (fst (velocity p) * FRICTION, - snd (velocity p) * elasticity (material p))
            else (fst (velocity p) * FRICTION * 0.8,
                  - snd (velocity p) * elasticity (material p) * damping (material p)))
       \<and> snd (position (handle_boundary_collisions t p)) = GROUND_Y - size_p p
       \<and> snd (velocity (handle_boundary_collisions t p)) = snd (velocity (ground_response p))
       \<and> (\<not> left_wall_contact (ground_response p) \<and> \<not> right_wall_contact (ground_response p)
            \<longrightarrow> position (handle_boundary_collisions t p) = position (ground_response p)
              \<and> velocity (handle_boundary_collisions t p) = velocity (ground_response p))"
proof -
  from assms have ag: "after_ground p = ground_response p"
    by (simp add: after_ground_def)
  show ?thesis
    using wall_response_none [of "ground_response p"]
    by (simp add: handle_boundary_collisions_motion ag wall_response_vertical
        ground_response_motion)
qed

text \<open>
  The rigid particle of the claim: elasticity 0.2, arriving with velocity \<open>(100, 200)\<close>,
  leaves with \<open>(100 * FRICTION, - 40)\<close>.
\<close>

theorem ground_collision_response_witness:
  "ground_contact (fst (DebrisParticle_init (600, 748) (100, 200) 5 RIGID half_rng))
   \<and> elasticity (material (fst (DebrisParticle_init (600, 748) (100, 200) 5 RIGID half_rng)))
       = 0.2
   \<and> velocity (handle_boundary_collisions 0
        (fst (DebrisParticle_init (600, 748) (100, 200) 5 RIGID half_rng)))
       = (100 * FRICTION, - 40)
   \<and> position (handle_boundary_collisions 0
        (fst (DebrisParticle_init (600, 748) (100, 200) 5 RIGID half_rng)))
       = (600, GROUND_Y - 5)"
proof -
  let ?p = "fst (DebrisParticle_init (600, 748) (100, 200) 5 RIGID half_rng)"
  have g: "ground_contact ?p"
    by (simp add: ground_contact_def init_fields GROUND_Y_def SCREEN_HEIGHT_def)
  have w: "\<not> left_wall_contact (ground_response ?p) \<and> \<not> right_wall_contact (ground_response ?p)"
    using ground_response_other [of ?p]
    by (simp add: left_wall_contact_def right_wall_contact_def ground_response_motion
        init_fields SCREEN_WIDTH_def)
  from ground_collision_response [OF g, of 0] g w show ?thesis
    by (simp add: init_fields)
qed

subsection \<open>The collision counter\<close>

text \<open>
  Claim C6. One call of \<^verbatim>\<open>handle_boundary_collisions\<close> adds exactly 1 to
  \<open>collision_count\<close> when at least one of the ground, left-wall and right-wall tests
  fired and 0 otherwise. So does one \<^verbatim>\<open>DebrisParticle.update\<close>, the tests being made
  on the advanced particle, and the counter never goes down. In a step of the whole
  system this holds for every particle that the step keeps.
\<close>

theorem collision_count_step:
  "collision_count (handle_boundary_collisions t p)
     = collision_count p + (if boundary_triggered p then 1 else 0)
   \<and> collision_count (DebrisParticle_update dt t p)
     = collision_count p + (if boundary_triggered (advance dt p) then 1 else 0)
   \<and> collision_count p \<le> collision_count (DebrisParticle_update dt t p)
   \<and> map collision_count (particles (ExplosionSystem_update dt t s))
     = map (\<lambda>q. collision_count q + (if boundary_triggered (advance dt q) then 1 else 0))
         (filter is_particle_active (particles s))"
proof -
  have cc: "collision_count (after_ground q) = collision_count q" for q
    by (simp add: after_ground_def ground_response_frame)
  have h: "collision_count (handle_boundary_collisions t q)
     = collision_count q + (if boundary_triggered q then 1 else 0)" for q
    by (simp add: handle_boundary_collisions_blocks wall_response_vertical cc)
  have u: "collision_count (DebrisParticle_update dt t q)
     = collision_count q + (if boundary_triggered (advance dt q) then 1 else 0)" for q
    by (simp add: DebrisParticle_update_def h advance_frame)
  show ?thesis
    by (simp add: h u ExplosionSystem_update_def)
qed

text \<open>A particle in the bottom-left corner: ground and left wall fire, the counter gains 1.\<close>

theorem collision_count_step_witness:
  "ground_contact (fst (DebrisParticle_init (2, 748) (- 30, 200) 5 SOFT half_rng))
   \<and> left_wall_contact
        (after_ground (fst (DebrisParticle_init (2, 748) (- 30, 200) 5 SOFT half_rng)))
   \<and> collision_count (handle_boundary_collisions 0
        (fst (DebrisParticle_init (2, 748) (- 30, 200) 5 SOFT half_rng))) = 1"
proof -
  let ?p = "fst (DebrisParticle_init (2, 748) (- 30, 200) 5 SOFT half_rng)"
  have g: "ground_contact ?p"
    by (simp add: ground_contact_def init_fields GROUND_Y_def SCREEN_HEIGHT_def)
  have w: "left_wall_contact (after_ground ?p)"
    using g ground_response_other [of ?p]
    by (simp add: after_ground_def left_wall_contact_def ground_response_motion init_fields)
  from g have b: "boundary_triggered ?p" by (simp add: boundary_triggered_def)
  from collision_count_step [of 0 ?p] g w b show ?thesis
    by (simp add: init_fields)
qed

subsection \<open>Boundary collisions do not speed a particle up\<close>

lemma material_multipliers:
  "0 \<le> elasticity (MATERIALS mt) \<and> elasticity (MATERIALS mt) \<le> 1
   \<and> 0 \<le> elasticity (MATERIALS mt) * damping (MATERIALS mt)
   \<and> elasticity (MATERIALS mt) * damping (MATERIALS mt) \<le> 1"
  by (cases mt) simp_all

lemma abs_scaled: "0 \<le> k \<Longrightarrow> k \<le> 1 \<Longrightarrow> \<bar>x * k\<bar> \<le> \<bar>x :: real\<bar>"
  by (simp add: abs_mult mult_left_le)

lemma friction_multipliers:
  "0 \<le> FRICTION \<and> FRICTION \<le> 1 \<and> 0 \<le> FRICTION * 0.8 \<and> FRICTION * 0.8 \<le> 1"
  by (simp add: FRICTION_def)

lemma ground_response_speed:
  assumes "material p = MATERIALS (material_type p)"
  shows "\<bar>fst (velocity (ground_response p))\<bar> \<le> \<bar>fst (velocity p)\<bar>"
    and "\<bar>snd (velocity (ground_response p))\<bar> \<le> \<bar>snd (velocity p)\<bar>"
proof -
  let ?e = "elasticity (MATERIALS (material_type p))"
  let ?d = "damping (MATERIALS (material_type p))"
  have m: "0 \<le> ?e" "?e \<le> 1" "0 \<le> ?e * ?d" "?e * ?d \<le> 1"
    using material_multipliers [of "material_type p"] by simp_all
  have f: "0 \<le> FRICTION" "FRICTION \<le> 1" "0 \<le> FRICTION * 0.8" "FRICTION * 0.8 \<le> 1"
    using friction_multipliers by simp_all
  show "\<bar>fst (velocity (ground_response p))\<bar> \<le> \<bar>fst (velocity p)\<bar>"
    using abs_scaled [OF f(1) f(2), of "fst (velocity p)"]
      abs_scaled [OF f(3) f(4), of "fst (velocity p)"]
    by (simp add: ground_response_motion)
  have "\<bar>- snd (velocity p) * ?e\<bar> \<le> \<bar>snd (velocity p)\<bar>"
    using abs_scaled [OF m(1) m(2), of "- snd (velocity p)"] by simp
  moreover have "\<bar>- snd (velocity p) * ?e * ?d\<bar> \<le> \<bar>snd (velocity p)\<bar>"
    using abs_scaled [OF m(3) m(4), of "- snd (velocity p)"] by (simp add: mult.assoc)
  ultimately show "\<bar>snd (velocity (ground_response p))\<bar> \<le> \<bar>snd (velocity p)\<bar>"
    using assms by (simp add: ground_response_motion)
qed

lemma wall_response_speed:
  assumes "material p = MATERIALS (material_type p)"
  shows "\<bar>fst (velocity (wall_response p))\<bar> \<le> \<bar>fst (velocity p)\<bar>"
proof -
  let ?e = "elasticity (MATERIALS (material_type p))"
  have m: "0 \<le> ?e" "?e \<le> 1"
    using material_multipliers [of "material_type p"] by simp_all
  have "\<bar>- fst (velocity p) * ?e\<bar> \<le> \<bar>fst (velocity p)\<bar>"
    using abs_scaled [OF m(1) m(2), of "- fst (velocity p)"] by simp
  with assms show ?thesis by (simp add: wall_response_def)
qed

lemma after_ground_speed:
  assumes "material p = MATERIALS (material_type p)"
  shows "\<bar>fst (velocity (after_ground p))\<bar> \<le> \<bar>fst (velocity p)\<bar>"
    and "\<bar>snd (velocity (after_ground p))\<bar> \<le> \<bar>snd (velocity p)\<bar>"
    and "material (after_ground p) = MATERIALS (material_type (after_ground p))"
  using assms ground_response_speed [OF assms]
  by (simp_all add: after_ground_def ground_response_frame)

text \<open>
  Claim C10. For a particle that carries the constants of its material,
  \<^verbatim>\<open>handle_boundary_collisions\<close> leaves neither \<open>|velocity.x|\<close> nor
  \<open>|velocity.y|\<close> larger than before, and each multiplier it applies (elasticity,
  elasticity times damping, \<open>FRICTION\<close>, \<open>FRICTION * 0.8\<close>) lies between 0 and 1.
\<close>

theorem boundary_collisions_never_speed_up:
  assumes "material p = MATERIALS (material_type p)"
  shows "\<bar>fst (velocity (handle_boundary_collisions t p))\<bar> \<le> \<bar>fst (velocity p)\<bar>
       \<and> \<bar>snd (velocity (handle_boundary_collisions t p))\<bar> \<le> \<bar>snd (velocity p)\<bar>
       \<and> 0 \<le> elasticity (material p) \<and> elasticity (material p) \<le> 1
       \<and> 0 \<le> elasticity (material p) * damping (material p)
       \<and> elasticity (material p) * damping (material p) \<le> 1
       \<and> 0 \<le> FRICTION \<and> FRICTION \<le> 1 \<and> 0 \<le> FRICTION * 0.8 \<and> FRICTION * 0.8 \<le> 1"
proof -
  have "\<bar>fst (velocity (wall_response (after_ground p)))\<bar> \<le> \<bar>fst (velocity (after_ground p))\<bar>"
    by (rule wall_response_speed) (rule after_ground_speed(3) [OF assms])
  with after_ground_speed(1) [OF assms]
  have x: "\<bar>fst (velocity (handle_boundary_collisions t p))\<bar> \<le> \<bar>fst (velocity p)\<bar>"
    by (simp add: handle_boundary_collisions_motion)
  have y: "\<bar>snd (velocity (handle_boundary_collisions t p))\<bar> \<le> \<bar>snd (velocity p)\<bar>"
    using after_ground_speed(2) [OF assms]
    by (simp add: handle_boundary_collisions_motion wall_response_vertical)
  from x y material_multipliers [of "material_type p"] friction_multipliers assms
  show ?thesis by simp
qed

theorem boundary_collisions_never_speed_up_witness:
  "material (fst (DebrisParticle_init (2, 748) (- 30, 200) 5 SOFT half_rng))
     = MATERIALS (material_type (fst (DebrisParticle_init (2, 748) (- 30, 200) 5 SOFT half_rng)))
   \<and> \<bar>fst (velocity (handle_boundary_collisions 0
        (fst (DebrisParticle_init (2, 748) (- 30, 200) 5 SOFT half_rng))))\<bar> \<le> 30
   \<and> \<bar>snd (velocity (handle_boundary_collisions 0
        (fst (DebrisParticle_init (2, 748) (- 30, 200) 5 SOFT half_rng))))\<bar> \<le> 200"
proof -
  let ?p = "fst (DebrisParticle_init (2, 748) (- 30, 200) 5 SOFT half_rng)"
  have m: "material ?p = MATERIALS (material_type ?p)" by (simp add: init_fields)
  from boundary_collisions_never_speed_up [OF m, of 0] m show ?thesis
    by (simp add: init_fields)
qed

subsection \<open>Stress\<close>

lemma update_deformation_stress:
  "material_type p = SEMI_RIGID \<Longrightarrow>
     stress (update_deformation cf p) = (stress p + cf / (mass p * 100)) * 0.95"
  by (simp add: update_deformation_def Let_def)

lemma ground_response_stress:
  "material_type p = SEMI_RIGID \<Longrightarrow>
     stress (ground_response p)
       = (stress p + \<bar>snd (velocity p)\<bar> * mass p / (mass p * 100)) * 0.95"
  by (simp add: ground_response_def Let_def update_deformation_stress)

lemma update_stress:
  "material_type p = SEMI_RIGID \<Longrightarrow>
     stress (DebrisParticle_update dt t p)
       = (if ground_contact (advance dt p)
          then (stress p + \<bar>snd (velocity (advance dt p))\<bar> * mass p / (mass p * 100)) * 0.95
          else stress p)"
  by (simp add: DebrisParticle_update_def handle_boundary_collisions_deform
      ground_response_stress advance_frame)

lemma advance_motion:
  "velocity (advance dt p) =
     vscale (vadd (velocity p) (vscale (vdiv (vadd (forces p) (vscale GRAVITY (mass p))) (mass p)) dt))
       AIR_RESISTANCE"
  "position (advance dt p) = vadd (position p) (vscale (velocity (advance dt p)) dt)"
  by (simp_all add: advance_def apply_force_def Let_def)

lemma fresh_fields:
  "position fresh_semi_rigid = (600, 740)"
  "velocity fresh_semi_rigid = (0, 100)"
  "size_p fresh_semi_rigid = 5"
  "mass fresh_semi_rigid = 0.045"
  "forces fresh_semi_rigid = (0, 0)"
  "stress fresh_semi_rigid = 0"
  "material_type fresh_semi_rigid = SEMI_RIGID"
  "material fresh_semi_rigid = MATERIALS SEMI_RIGID"
  by (simp_all add: fresh_semi_rigid_def DebrisParticle_init_def random_uniform_def Let_def
      power2_eq_square)

lemma fresh_advance:
  "velocity (advance 0.1 fresh_semi_rigid) = (0, 148.5)"
  "position (advance 0.1 fresh_semi_rigid) = (600, 754.85)"
  by (simp_all add: advance_motion fresh_fields vadd_def vscale_def vdiv_def GRAVITY_def
      AIR_RESISTANCE_def)


lemma forces_reset:
  "forces (advance dt p) = (0, 0)"
  "forces (update_deformation cf p) = forces p"
  "forces (ground_response p) = forces p"
  "forces (wall_response p) = forces p"
  "forces (handle_boundary_collisions t p) = forces (after_ground p)"
  by (simp_all add: advance_def Let_def update_deformation_def ground_response_def
      wall_response_def handle_boundary_collisions_blocks)

lemma fresh_ground: "ground_contact (advance 0.1 fresh_semi_rigid)"
  by (simp add: ground_contact_def fresh_advance advance_frame fresh_fields GROUND_Y_def
      SCREEN_HEIGHT_def)

lemma fresh_after_ground:
  "after_ground (advance 0.1 fresh_semi_rigid) = ground_response (advance 0.1 fresh_semi_rigid)"
  using fresh_ground by (simp add: after_ground_def)

lemma ground_response_below:
  assumes "stress p + \<bar>snd (velocity p)\<bar> * mass p / (mass p * 100)
             \<le> deformation_threshold (material p)"
  shows "size_p (ground_response p) = size_p p"
    and "deformation (ground_response p) = deformation p"
  using assms by (simp_all add: ground_response_def update_deformation_def Let_def)

lemma fresh_ground_response:
  "stress (ground_response (advance 0.1 fresh_semi_rigid)) = 1.41075"
  "size_p (ground_response (advance 0.1 fresh_semi_rigid)) = 5"
  "position (ground_response (advance 0.1 fresh_semi_rigid)) = (600, 745)"
  "velocity (ground_response (advance 0.1 fresh_semi_rigid)) = (0, - 75.735)"
proof -
  let ?a = "advance 0.1 fresh_semi_rigid"
  show s: "stress (ground_response ?a) = 1.41075"
    by (simp add: ground_response_stress advance_frame fresh_fields fresh_advance)
  have "stress ?a + \<bar>snd (velocity ?a)\<bar> * mass ?a / (mass ?a * 100)
          \<le> deformation_threshold (material ?a)"
    by (simp add: advance_frame fresh_fields fresh_advance)
  then show "size_p (ground_response ?a) = 5"
    by (simp add: ground_response_below advance_frame fresh_fields)
  show "position (ground_response ?a) = (600, 745)"
    by (simp add: ground_response_motion fresh_advance advance_frame fresh_fields GROUND_Y_def
        SCREEN_HEIGHT_def)
  show "velocity (ground_response ?a) = (0, - 75.735)"
    by (simp add: ground_response_motion fresh_advance advance_frame fresh_fields)
qed

lemma bounced_fields:
  "position bounced_semi_rigid = (600, 745)"
  "velocity bounced_semi_rigid = (0, - 75.735)"
  "size_p bounced_semi_rigid = 5"
  "mass bounced_semi_rigid = 0.045"
  "forces bounced_semi_rigid = (0, 0)"
  "stress bounced_semi_rigid = 1.41075"
  "material_type bounced_semi_rigid = SEMI_RIGID"
proof -
  let ?g = "ground_response (advance 0.1 fresh_semi_rigid)"
  have w: "wall_response ?g = ?g"
    by (rule wall_response_none)
       (simp_all add: left_wall_contact_def right_wall_contact_def fresh_ground_response
          SCREEN_WIDTH_def)
  show "position bounced_semi_rigid = (600, 745)"
    "velocity bounced_semi_rigid = (0, - 75.735)"
    by (simp_all add: bounced_semi_rigid_def DebrisParticle_update_def
        handle_boundary_collisions_motion fresh_after_ground w fresh_ground_response)
  show "size_p bounced_semi_rigid = 5" "stress bounced_semi_rigid = 1.41075"
    using fresh_ground
    by (simp_all add: bounced_semi_rigid_def DebrisParticle_update_def
        handle_boundary_collisions_deform fresh_ground_response)
  show "mass bounced_semi_rigid = 0.045" "material_type bounced_semi_rigid = SEMI_RIGID"
    by (simp_all add: bounced_semi_rigid_def DebrisParticle_update_def
        handle_boundary_collisions_deform advance_frame fresh_fields)
  show "forces bounced_semi_rigid = (0, 0)"
    by (simp add: bounced_semi_rigid_def DebrisParticle_update_def forces_reset
        fresh_after_ground)
qed

lemma bounced_advance:
  "velocity (advance 0.1 bounced_semi_rigid) = (0, - 25.47765)"
  "position (advance 0.1 bounced_semi_rigid) = (600, 742.452235)"
  by (simp_all add: advance_motion bounced_fields vadd_def vscale_def vdiv_def GRAVITY_def
      AIR_RESISTANCE_def)

lemma bounced_airborne: "\<not> ground_contact (advance 0.1 bounced_semi_rigid)"
  by (simp add: ground_contact_def bounced_advance advance_frame bounced_fields GROUND_Y_def
      SCREEN_HEIGHT_def)

text \<open>
  The falling particle has stress 0; the update in which it hits the ground leaves it
  with stress 1.41075, and the next update, all in flight, leaves the stress at 1.41075:
  a step without ground contact does not multiply a positive stress by 0.95.
\<close>

theorem stress_kept_in_flight_counterexample:
  "material_type bounced_semi_rigid = SEMI_RIGID
   \<and> stress bounced_semi_rigid = 1.41075
   \<and> stress (DebrisParticle_update 0.1 16 bounced_semi_rigid) = 1.41075
   \<and> stress fresh_semi_rigid = 0
   \<and> stress (DebrisParticle_update 0.1 0 fresh_semi_rigid) = 1.41075"
  using bounced_airborne bounced_fields(6)
  by (simp add: update_stress bounced_fields(7) fresh_fields(6)
      bounced_semi_rigid_def [symmetric])

text \<open>
  Claim C4, as amended. For a semi-rigid particle, a call of
  \<^verbatim>\<open>update_deformation\<close> adds \<open>collision_force / (mass * 100)\<close> to the stress and
  then multiplies it by 0.95. An update calls it exactly when the advanced particle
  touches the ground, with the force \<open>|velocity.y| * mass\<close>; an update without ground
  contact leaves the stress as it was.
\<close>

theorem stress_relaxation:
  assumes "material_type p = SEMI_RIGID"
  shows "stress (update_deformation cf p) = (stress p + cf / (mass p * 100)) * 0.95
       \<and> stress (DebrisParticle_update dt t p)
         = (if ground_contact (advance dt p)
            then (stress p + \<bar>snd (velocity (advance dt p))\<bar> * mass p / (mass p * 100)) * 0.95
            else stress p)"
  using assms by (simp add: update_deformation_stress update_stress)

theorem stress_relaxation_witness:
  "material_type fresh_semi_rigid = SEMI_RIGID
   \<and> stress (update_deformation 45 fresh_semi_rigid) = 9.5
   \<and> ground_contact (advance 0.1 fresh_semi_rigid)
   \<and> stress (DebrisParticle_update 0.1 0 fresh_semi_rigid) = (0 + 148.5 / 100) * 0.95"
  using stress_relaxation [OF fresh_fields(7), of 45 "0.1" 0] fresh_ground
  by (simp add: fresh_fields fresh_advance)

subsection \<open>Construction\<close>


text \<open>
  The constructor does not test the size: called with size 0 it returns a particle of
  size 0, and that particle has mass 0.
\<close>

theorem zero_size_constructed_counterexample:
  "mass (fst (DebrisParticle_init (600, 400) (0, 0) 0 SEMI_RIGID half_rng)) = 0
   \<and> size_p (fst (DebrisParticle_init (600, 400) (0, 0) 0 SEMI_RIGID half_rng)) = 0"
  by (simp add: init_fields)

lemma density_positive: "0 < density (MATERIALS mt)"
  by (cases mt) simp_all

text \<open>
  Claim C5, as amended. The constructor does not reject size 0: the particle it builds
  then has mass 0. The mass of a constructed particle is
  \<open>size\<^sup>2 * density / 1000\<close> and is never negative, and it is positive for every
  size between 3 and 15, the sizes that \<^verbatim>\<open>create_explosion\<close> draws.
\<close>

theorem constructed_mass:
  "mass (fst (DebrisParticle_init pos vel 0 mt g)) = 0
   \<and> mass (fst (DebrisParticle_init pos vel sz mt g))
       = (size_p (fst (DebrisParticle_init pos vel sz mt g)))\<^sup>2
         * density (material (fst (DebrisParticle_init pos vel sz mt g))) / 1000
   \<and> 0 \<le> mass (fst (DebrisParticle_init pos vel sz mt g))
   \<and> (3 \<le> sz \<and> sz \<le> 15 \<longrightarrow> 0 < mass (fst (DebrisParticle_init pos vel sz mt g)))"
proof -
  have d: "0 < density (MATERIALS mt)" by (rule density_positive)
  then have nn: "0 \<le> sz\<^sup>2 * density (MATERIALS mt) / 1000" by simp
  have pos: "0 < sz\<^sup>2 * density (MATERIALS mt) / 1000" if "3 \<le> sz"
  proof -
    from that have "0 < sz" by simp
    then have "0 < sz\<^sup>2" by simp
    with d show ?thesis by simp
  qed
  from nn pos show ?thesis by (simp add: init_fields)
qed

text \<open>A semi-rigid particle of size 5 has mass 0.045.\<close>

theorem constructed_mass_witness:
  "(3 :: real) \<le> 5 \<and> (5 :: real) \<le> 15
   \<and> 0 < mass (fst (DebrisParticle_init (600, 740) (0, 100) 5 SEMI_RIGID half_rng))
   \<and> mass (fst (DebrisParticle_init (600, 740) (0, 100) 5 SEMI_RIGID half_rng)) = 0.045"
  using constructed_mass [of "(600, 740)" "(0, 100)" SEMI_RIGID half_rng 5]
  by (simp add: init_fields power2_eq_square)

subsection \<open>Activity\<close>

lemma magnitude_3_4: "0 \<le> k \<Longrightarrow> magnitude (3 * k, 4 * k) = 5 * k"
  unfolding magnitude_def
  by (rule real_sqrt_unique) (simp_all add: power2_eq_square)

text \<open>
  Claim C7. A particle at \<open>x = - 150\<close>, beyond the margin of 100, is not active when
  its speed is 20 and is active when its speed is 60.
\<close>

theorem off_screen_activity:
  assumes "fst (position p) = - 150"
  shows "(magnitude (velocity p) = 20 \<longrightarrow> \<not> is_particle_active p)
       \<and> (magnitude (velocity p) = 60 \<longrightarrow> is_particle_active p)"
  using assms by (simp add: is_particle_active_def)

theorem off_screen_activity_witness:
  "fst (position (fst (DebrisParticle_init (- 150, 300) (12, 16) 5 RIGID half_rng))) = - 150
   \<and> magnitude (velocity (fst (DebrisParticle_init (- 150, 300) (12, 16) 5 RIGID half_rng))) = 20
   \<and> \<not> is_particle_active (fst (DebrisParticle_init (- 150, 300) (12, 16) 5 RIGID half_rng))
   \<and> fst (position (fst (DebrisParticle_init (- 150, 300) (36, 48) 5 RIGID half_rng))) = - 150
   \<and> magnitude (velocity (fst (DebrisParticle_init (- 150, 300) (36, 48) 5 RIGID half_rng))) = 60
   \<and> is_particle_active (fst (DebrisParticle_init (- 150, 300) (36, 48) 5 RIGID half_rng))"
proof -
  let ?p = "fst (DebrisParticle_init (- 150, 300) (12, 16) 5 RIGID half_rng)"
  let ?q = "fst (DebrisParticle_init (- 150, 300) (36, 48) 5 RIGID half_rng)"
  have xp: "fst (position ?p) = - 150" and xq: "fst (position ?q) = - 150"
    by (simp_all add: init_fields)
  have sp: "magnitude (velocity ?p) = 20"
    using magnitude_3_4 [of 4] by (simp add: init_fields)
  have sq: "magnitude (velocity ?q) = 60"
    using magnitude_3_4 [of 12] by (simp add: init_fields)
  from off_screen_activity [OF xp] off_screen_activity [OF xq] xp xq sp sq
  show ?thesis by simp
qed

subsection \<open>Explosions\<close>

lemma random_uniform_draws:
  "draws (snd (random_uniform a b g)) = draws g"
  by (simp add: random_uniform_def)

lemma random_uniform_unit:
  "unit_draws g \<Longrightarrow> unit_draws (snd (random_uniform a b g))"
  by (simp add: unit_draws_def random_uniform_def)

lemma random_uniform_range:
  assumes "unit_draws g" and "a \<le> b"
  shows "a \<le> fst (random_uniform a b g)" and "fst (random_uniform a b g) \<le> b"
proof -
  from assms(1) have u: "0 \<le> draws g (cursor g)" "draws g (cursor g) < 1"
    by (simp_all add: unit_draws_def)
  from assms(2) have d: "0 \<le> b - a" by simp
  from u d have l: "0 \<le> (b - a) * draws g (cursor g)" by simp
  from u d have "(b - a) * draws g (cursor g) \<le> (b - a) * 1"
    by (intro mult_left_mono) simp_all
  with l show "a \<le> fst (random_uniform a b g)" "fst (random_uniform a b g) \<le> b"
    by (simp_all add: random_uniform_def)
qed

lemma init_unit:
  "unit_draws g \<Longrightarrow> unit_draws (snd (DebrisParticle_init pos vel sz mt g))"
  by (simp add: DebrisParticle_init_def Let_def random_uniform_def unit_draws_def
      split: prod.splits)

lemma spawn_particles_result:
  "unit_draws g \<Longrightarrow>
     \<exists>new. fst (spawn_particles n pos force mt ps g) = ps @ new
          \<and> length new = n \<and> list_all (spawned_ok mt) new"
proof (induction n arbitrary: ps g)
  case 0
  show ?case by simp
next
  case (Suc n)
  obtain ang g1 where a: "random_uniform 0 (2 * pi) g = (ang, g1)" by fastforce
  obtain speed g2 where b: "random_uniform (force * 0.3) force g1 = (speed, g2)" by fastforce
  obtain bias g3 where c: "random_uniform 0 200 g2 = (bias, g3)" by fastforce
  obtain od g4 where d: "random_uniform 0 30 g3 = (od, g4)" by fastforce
  obtain sz g5 where e: "random_uniform 3 15 g4 = (sz, g5)" by fastforce
  let ?pos = "vadd pos (cos ang * od, sin ang * od)"
  let ?vel = "(cos ang * speed, sin ang * speed - bias)"
  obtain p g6 where f: "DebrisParticle_init ?pos ?vel sz mt g5 = (p, g6)" by fastforce
  have u1: "unit_draws g1" using random_uniform_unit [OF Suc.prems, of 0 "2 * pi"] a by simp
  have u2: "unit_draws g2" using random_uniform_unit [OF u1, of "force * 0.3" force] b by simp
  have u3: "unit_draws g3" using random_uniform_unit [OF u2, of 0 200] c by simp
  have u4: "unit_draws g4" using random_uniform_unit [OF u3, of 0 30] d by simp
  have u5: "unit_draws g5" using random_uniform_unit [OF u4, of 3 15] e by simp
  have u6: "unit_draws g6" using init_unit [OF u5, of ?pos ?vel sz mt] f by simp
  have szr: "3 \<le> sz \<and> sz \<le> 15"
    using random_uniform_range [OF u4, of 3 15] e by simp
  have pk: "spawned_ok mt p"
    using init_fields(1,3) [of ?pos ?vel sz mt g5] f szr by (simp add: spawned_ok_def)
  have step: "spawn_particles (Suc n) pos force mt ps g
                = spawn_particles n pos force mt (ps @ [p]) g6"
    using a b c d e f by (simp add: Let_def)
  from Suc.IH [OF u6, of "ps @ [p]"] obtain new where
    n: "fst (spawn_particles n pos force mt (ps @ [p]) g6) = (ps @ [p]) @ new"
       "length new = n" "list_all (spawned_ok mt) new" by blast
  from n pk step have "fst (spawn_particles (Suc n) pos force mt ps g) = ps @ (p # new)
      \<and> length (p # new) = Suc n \<and> list_all (spawned_ok mt) (p # new)" by simp
  then show ?case by blast
qed

lemma half_rng_unit: "unit_draws half_rng"
  by (simp add: unit_draws_def half_rng_def)

lemma create_explosion_fields:
  "particles (fst (create_explosion pos force cnt mt ticks s g))
     = fst (spawn_particles (nat cnt) pos force mt (particles s) g)"
  "explosions (fst (create_explosion pos force cnt mt ticks s g))
     = explosions s @ [\<lparr>e_position = pos, e_time = ticks, e_duration = 500\<rparr>]"
  by (simp_all add: create_explosion_def Let_def split: prod.splits)

text \<open>
  Claim C8. With unit draws in \<open>[0, 1)\<close> and a count that is not negative,
  \<^verbatim>\<open>create_explosion\<close> appends exactly \<open>particle_count\<close> new particles to the
  population, each of the requested material and of a size between 3 and 15, and
  appends exactly one explosion marker, whatever the count.
\<close>

theorem create_explosion_adds:
  assumes "unit_draws g" and "0 \<le> cnt"
  shows "\<exists>new. particles (fst (create_explosion pos force cnt mt ticks s g)) = particles s @ new
            \<and> int (length new) = cnt
            \<and> (\<forall>p \<in> set new. material_type p = mt \<and> 3 \<le> size_p p \<and> size_p p \<le> 15)
            \<and> explosions (fst (create_explosion pos force cnt mt ticks s g))
                = explosions s @ [\<lparr>e_position = pos, e_time = ticks, e_duration = 500\<rparr>]"
proof -
  from spawn_particles_result [OF assms(1), of "nat cnt" pos force mt "particles s"]
  obtain new where n: "fst (spawn_particles (nat cnt) pos force mt (particles s) g)
         = particles s @ new" "length new = nat cnt" "list_all (spawned_ok mt) new"
    by blast
  from n(3) have "\<forall>p \<in> set new. material_type p = mt \<and> 3 \<le> size_p p \<and> size_p p \<le> 15"
    by (simp add: list_all_iff spawned_ok_def)
  with n(1,2) assms(2) show ?thesis
    by (intro exI [of _ new]) (simp add: create_explosion_fields)
qed


text \<open>The call of the claim: force 300, 20 particles, semi-rigid, on an empty system.\<close>

theorem create_explosion_adds_witness:
  "unit_draws half_rng \<and> (0::int) \<le> 20
   \<and> length (particles (fst (create_explosion (600, 400) 300 20 SEMI_RIGID 1234
        ExplosionSystem_init half_rng))) = 20
   \<and> list_all (spawned_ok SEMI_RIGID)
        (particles (fst (create_explosion (600, 400) 300 20 SEMI_RIGID 1234
           ExplosionSystem_init half_rng)))
   \<and> length (explosions (fst (create_explosion (600, 400) 300 20 SEMI_RIGID 1234
        ExplosionSystem_init half_rng))) = 1"
proof -
  have c: "(0::int) \<le> 20" by simp
  from create_explosion_adds [OF half_rng_unit c, of "(600, 400)" 300 SEMI_RIGID 1234
      ExplosionSystem_init]
  obtain new where n:
    "particles (fst (create_explosion (600, 400) 300 20 SEMI_RIGID 1234
        ExplosionSystem_init half_rng)) = particles ExplosionSystem_init @ new"
    "int (length new) = 20"
    "\<forall>p \<in> set new. material_type p = SEMI_RIGID \<and> 3 \<le> size_p p \<and> size_p p \<le> 15"
    "explosions (fst (create_explosion (600, 400) 300 20 SEMI_RIGID 1234
        ExplosionSystem_init half_rng))
       = explosions ExplosionSystem_init
         @ [\<lparr>e_position = (600, 400), e_time = 1234, e_duration = 500\<rparr>]"
    by blast
  from n(3) have "list_all (spawned_ok SEMI_RIGID) new"
    by (simp add: list_all_iff spawned_ok_def)
  with n(1,2,4) half_rng_unit show ?thesis
    by (simp add: ExplosionSystem_init_def)
qed

subsection \<open>Determinism of the step\<close>

lemma update_deformation_clock:
  "update_deformation cf (p\<lparr>last_collision_time := x\<rparr>)
     = (update_deformation cf p)\<lparr>last_collision_time := x\<rparr>"
  by (simp add: update_deformation_def Let_def)

lemma advance_clock:
  "advance dt (p\<lparr>last_collision_time := x\<rparr>) = (advance dt p)\<lparr>last_collision_time := x\<rparr>"
  by (simp add: advance_def apply_force_def Let_def)

lemma ground_response_clock:
  "ground_response (p\<lparr>last_collision_time := x\<rparr>)
     = (ground_response p)\<lparr>last_collision_time := x\<rparr>"
  by (rule particle.equality) (simp_all add: ground_response_def update_deformation_def Let_def)

lemma contact_clock:
  "ground_contact (p\<lparr>last_collision_time := x\<rparr>) = ground_contact p"
  "left_wall_contact (p\<lparr>last_collision_time := x\<rparr>) = left_wall_contact p"
  "right_wall_contact (p\<lparr>last_collision_time := x\<rparr>) = right_wall_contact p"
  by (simp_all add: ground_contact_def left_wall_contact_def right_wall_contact_def)

lemma after_ground_clock:
  "after_ground (p\<lparr>last_collision_time := x\<rparr>) = (after_ground p)\<lparr>last_collision_time := x\<rparr>"
  by (simp add: after_ground_def contact_clock ground_response_clock)

lemma wall_response_clock:
  "wall_response (p\<lparr>last_collision_time := x\<rparr>) = (wall_response p)\<lparr>last_collision_time := x\<rparr>"
  by (rule particle.equality) (simp_all add: wall_response_def contact_clock)

lemma boundary_triggered_clock:
  "boundary_triggered (p\<lparr>last_collision_time := x\<rparr>) = boundary_triggered p"
  by (simp add: boundary_triggered_def contact_clock after_ground_clock)


lemma handle_boundary_collisions_clock:
  "traj (handle_boundary_collisions t (p\<lparr>last_collision_time := x\<rparr>))
     = traj (handle_boundary_collisions t' p)"
  unfolding traj_def
  by (rule particle.equality)
     (simp_all add: handle_boundary_collisions_blocks boundary_triggered_clock
        after_ground_clock wall_response_clock)

lemma is_particle_active_clock:
  "is_particle_active (p\<lparr>last_collision_time := x\<rparr>) = is_particle_active p"
  by (simp add: is_particle_active_def)

lemma traj_eqD: "traj p = traj q \<Longrightarrow> q = p\<lparr>last_collision_time := last_collision_time q\<rparr>"
  by (cases p, cases q) (simp add: traj_def)

lemma update_traj:
  assumes "traj p = traj q"
  shows "traj (DebrisParticle_update dt t1 p) = traj (DebrisParticle_update dt t2 q)"
proof -
  from assms have "q = p\<lparr>last_collision_time := last_collision_time q\<rparr>" by (rule traj_eqD)
  then have "DebrisParticle_update dt t2 q
      = handle_boundary_collisions t2
          ((advance dt p)\<lparr>last_collision_time := last_collision_time q\<rparr>)"
    by (metis DebrisParticle_update_def advance_clock)
  then show ?thesis
    by (simp add: handle_boundary_collisions_clock [of t2 _ _ t1] DebrisParticle_update_def)
qed

lemma active_traj: "traj p = traj q \<Longrightarrow> is_particle_active p = is_particle_active q"
  by (metis traj_eqD is_particle_active_clock)

lemma step_particles_traj:
  "map traj ps = map traj qs \<Longrightarrow>
     map traj (map (DebrisParticle_update dt t1) (filter is_particle_active ps))
       = map traj (map (DebrisParticle_update dt t2) (filter is_particle_active qs))"
proof (induction ps arbitrary: qs)
  case Nil
  then show ?case by simp
next
  case (Cons p ps)
  then obtain q qs' where q: "qs = q # qs'" "traj p = traj q" "map traj ps = map traj qs'"
    by (cases qs) auto
  from q(2) have a: "is_particle_active p = is_particle_active q" by (rule active_traj)
  from q(2) have u: "traj (DebrisParticle_update dt t1 p) = traj (DebrisParticle_update dt t2 q)"
    by (rule update_traj)
  from Cons.IH [OF q(3)] a u q(1) show ?case by simp
qed

lemma system_update_traj:
  "map traj (particles s1) = map traj (particles s2) \<Longrightarrow>
     map traj (particles (ExplosionSystem_update dt t1 s1))
       = map traj (particles (ExplosionSystem_update dt t2 s2))"
  using step_particles_traj [of "particles s1" "particles s2" dt t1 t2]
  by (simp add: ExplosionSystem_update_def)

text \<open>
  Claim C9. Two runs of the step function over the same \<open>dt\<close> sequence, from particle
  lists that agree in every field but \<open>last_collision_time\<close> (identical lists among
  them), give particle lists that agree in every field but \<open>last_collision_time\<close>,
  whatever the clock returns in either run. The step takes no random source at all.
\<close>

theorem step_determinism:
  assumes "map fst steps1 = map fst steps2"
    and "map traj (particles s1) = map traj (particles s2)"
  shows "map traj (particles (run steps1 s1)) = map traj (particles (run steps2 s2))"
  using assms
proof (induction steps1 arbitrary: steps2 s1 s2)
  case Nil
  then show ?case by simp
next
  case (Cons a steps1)
  obtain dt t1 where a: "a = (dt, t1)" by (cases a)
  from Cons.prems(1) a obtain t2 rest where r: "steps2 = (dt, t2) # rest"
      "map fst steps1 = map fst rest"
    by (cases steps2) auto
  from Cons.prems(2) have "map traj (particles (ExplosionSystem_update dt t1 s1))
       = map traj (particles (ExplosionSystem_update dt t2 s2))"
    by (rule system_update_traj)
  from Cons.IH [OF r(2) this] a r(1) show ?case by simp
qed

theorem step_determinism_witness:
  "map fst [(0.1 :: real, 0 :: int), (0.1, 16)] = map fst [(0.1 :: real, 5 :: int), (0.1, 999)]
   \<and> map traj (particles (run [(0.1, 0), (0.1, 16)]
         \<lparr>particles = [fresh_semi_rigid], explosions = []\<rparr>))
     = map traj (particles (run [(0.1, 5), (0.1, 999)]
         \<lparr>particles = [fresh_semi_rigid], explosions = []\<rparr>))"
proof -
  have h: "map fst [(0.1 :: real, 0 :: int), (0.1, 16)]
             = map fst [(0.1 :: real, 5 :: int), (0.1, 999)]" by simp
  from step_determinism [OF h, of "\<lparr>particles = [fresh_semi_rigid], explosions = []\<rparr>"
      "\<lparr>particles = [fresh_semi_rigid], explosions = []\<rparr>"] h
  show ?thesis by simp
qed

end
